theory Spec2Isabelle
  imports Main
begin

section \<open>Expression trees\<close>

text \<open>
  The compiler of \<^verbatim>\<open>ibis/backends/base/sql/compiler/query_builder.py\<close> walks
  expression trees built by the front end. An expression is a typed wrapper
  (\<^verbatim>\<open>ir.TableExpr\<close>, \<^verbatim>\<open>ir.BooleanColumn\<close>, ...) around an operation node; a node
  holds its arguments. Nodes compare and hash structurally, so HOL equality stands for
  membership in the sets and memo tables the builder keeps.
\<close>

datatype join_kind =
  InnerJoin | LeftJoin | RightJoin | OuterJoin | LeftAntiJoin | LeftSemiJoin | CrossJoin

datatype expr_class =
  TableExpr | BooleanColumn | BooleanScalar | ColumnExpr | ScalarExpr | AnalyticExpr | ExprList

datatype expr = Expr expr_class node
and node =
    PhysicalTable "string option"
  | SQLQueryResult string
  | SelfReference expr
  | Join join_kind expr expr "expr list"
  | MaterializedJoin expr
  | Selection expr "expr list" "expr list" "expr list"
  | Aggregation expr "expr list" "expr list" "expr list" "expr list" "expr list"
  | Distinct expr
  | Limit expr int int
  | Union expr expr bool
  | Intersection expr expr
  | Difference expr expr
  | TableColumn string expr
  | TableArrayView expr
  | Literal string
  | AnyOp expr
  | NotAny expr
  | SummaryFilter expr
  | TopK expr int expr
  | ExistsSubquery "expr option" "expr list"
  | NotExistsSubquery "expr option" "expr list"
  | BinaryOp string expr expr
  | BooleanValueOp string "arg list"
  | ValueOp string "arg list"
  | ExpressionList "expr list"
and arg = ArgExpr expr | ArgValue string

text \<open>\<^verbatim>\<open>expr.op()\<close> and the class of the wrapper.\<close>

fun op :: "expr \<Rightarrow> node" where
  "op (Expr c n) = n"

fun class_of :: "expr \<Rightarrow> expr_class" where
  "class_of (Expr c n) = c"

datatype error =
    NotImplementedError
  | AssertionError
  | AttributeError
  | RelationError
  | TranslationError
  | InternalError

section \<open>Set operations: flattening and keywords\<close>

text \<open>
  \<^verbatim>\<open>flatten_union\<close> returns one list that holds table expressions and the
  \<^verbatim>\<open>distinct\<close> flags between them; a piece is either of the two.
\<close>

datatype piece = PTable expr | PFlag bool

fun flatten_union :: "expr \<Rightarrow> piece list" where
  "flatten_union (Expr c n) =
     (case n of
        Union left right dflag \<Rightarrow>
          flatten_union left @ [PFlag dflag] @ flatten_union right
      | _ \<Rightarrow> [PTable (Expr c n)])"

text \<open>Both of the following recurse through \<^verbatim>\<open>flatten_union\<close>, as the source does.\<close>

fun flatten_intersection :: "expr \<Rightarrow> piece list" where
  "flatten_intersection (Expr c n) =
     (case n of
        Intersection left right \<Rightarrow> flatten_union left @ flatten_union right
      | _ \<Rightarrow> [PTable (Expr c n)])"

fun flatten_difference :: "expr \<Rightarrow> piece list" where
  "flatten_difference (Expr c n) =
     (case n of
        Difference left right \<Rightarrow> flatten_union left @ flatten_union right
      | _ \<Rightarrow> [PTable (Expr c n)])"

text \<open>The slices \<^verbatim>\<open>xs[::2]\<close> and \<^verbatim>\<open>xs[1::2]\<close>.\<close>

fun slice_even :: "'a list \<Rightarrow> 'a list" where
  "slice_even [] = []"
| "slice_even [x] = [x]"
| "slice_even (x # y # xs) = x # slice_even xs"

definition slice_odd :: "'a list \<Rightarrow> 'a list" where
  "slice_odd xs = slice_even (drop 1 xs)"

text \<open>
  The statement classes \<^verbatim>\<open>Union\<close>, \<^verbatim>\<open>Intersection\<close> and \<^verbatim>\<open>Difference\<close>. Their base
  class \<^verbatim>\<open>SetOp\<close> is not part of the sources at hand; its constructor stores the
  operand list, the expression and the context, which is all that is used here. The
  context is left abstract.
\<close>

record 'ctx set_op =
  tables :: "piece list"
  set_expr :: expr
  set_context :: 'ctx

record 'ctx union_op = "'ctx set_op" +
  distincts :: "piece list"

definition keyword :: "bool \<Rightarrow> string" where
  "keyword dflag = (if dflag then ''UNION'' else ''UNION ALL'')"

text \<open>
  \<^verbatim>\<open>Union._get_keyword_list\<close> maps \<^verbatim>\<open>keyword\<close> over \<^verbatim>\<open>distincts\<close>. The truth value of
  an expression object is decided outside the sources at hand, so a table in a flag
  position yields no keyword here.
\<close>

fun keyword_of_piece :: "piece \<Rightarrow> string option" where
  "keyword_of_piece (PFlag d) = Some (keyword d)"
| "keyword_of_piece (PTable t) = None"

definition union_get_keyword_list :: "'ctx union_op \<Rightarrow> string option list" where
  "union_get_keyword_list u = map keyword_of_piece (distincts u)"

definition intersection_get_keyword_list :: "'ctx set_op \<Rightarrow> string list" where
  "intersection_get_keyword_list s = map (\<lambda>_. ''INTERSECT'') [0 ..< length (tables s) - 1]"

definition difference_get_keyword_list :: "'ctx set_op \<Rightarrow> string list" where
  "difference_get_keyword_list s = replicate (length (tables s) - 1) ''EXCEPT''"

definition make_union :: "'ctx \<Rightarrow> expr \<Rightarrow> error + 'ctx union_op" where
  "make_union context e =
     (let union_info = flatten_union e;
          npieces = length union_info
      in if \<not> (npieces \<ge> 3 \<and> npieces mod 2 \<noteq> 0) then Inl AssertionError
         else Inr \<lparr> tables = slice_even union_info, set_expr = e, set_context = context,
                    distincts = slice_odd union_info \<rparr>)"

definition make_intersect :: "'ctx \<Rightarrow> expr \<Rightarrow> 'ctx set_op" where
  "make_intersect context e =
     \<lparr> tables = flatten_intersection e, set_expr = e, set_context = context \<rparr>"

definition make_difference :: "'ctx \<Rightarrow> expr \<Rightarrow> 'ctx set_op" where
  "make_difference context e =
     \<lparr> tables = flatten_difference e, set_expr = e, set_context = context \<rparr>"

text \<open>
  Inputs of the flattening property: a right-recursive chain
  \<^verbatim>\<open>t1.union(t2.union(t3 ...))\<close> built from a first operand and the following
  (flag, operand) pairs, whose operands are not unions themselves.
\<close>

definition is_union :: "expr \<Rightarrow> bool" where
  "is_union e = (case op e of Union l r d \<Rightarrow> True | _ \<Rightarrow> False)"

fun union_chain :: "expr \<Rightarrow> (bool \<times> expr) list \<Rightarrow> expr" where
  "union_chain t [] = t"
| "union_chain t ((d, t') # rest) = Expr TableExpr (Union t (union_chain t' rest) d)"

fun interleave :: "(bool \<times> expr) list \<Rightarrow> piece list" where
  "interleave [] = []"
| "interleave ((d, t) # rest) = PFlag d # PTable t # interleave rest"

definition tbl :: "string \<Rightarrow> expr" where
  "tbl name = Expr TableExpr (PhysicalTable (Some name))"

section \<open>Verified properties\<close>

subsection \<open>Set operations\<close>

lemma flatten_union_leaf: "\<not> is_union t \<Longrightarrow> flatten_union t = [PTable t]"
  by (cases t) (auto simp: is_union_def split: node.splits)

lemma flatten_union_chain:
  "\<not> is_union t \<Longrightarrow> \<forall>p \<in> set rest. \<not> is_union (snd p) \<Longrightarrow>
   flatten_union (union_chain t rest) = PTable t # interleave rest"
proof (induction rest arbitrary: t)
  case Nil
  then show ?case by (simp add: flatten_union_leaf)
next
  case (Cons p rest)
  obtain d t' where p: "p = (d, t')" by (cases p)
  from Cons.prems have "\<not> is_union t'" "\<forall>q \<in> set rest. \<not> is_union (snd q)"
    by (simp_all add: p)
  then have "flatten_union (union_chain t' rest) = PTable t' # interleave rest"
    by (rule Cons.IH)
  with Cons.prems(1) show ?case
    by (simp add: p flatten_union_leaf)
qed

lemma slice_even_interleave:
  "slice_even (PTable t # interleave rest) = map PTable (t # map snd rest)"
  by (induction rest arbitrary: t) auto

lemma slice_odd_interleave:
  "slice_odd (PTable t # interleave rest) = map PFlag (map fst rest)"
  unfolding slice_odd_def
  by (induction rest arbitrary: t) auto

lemma length_interleave: "length (interleave rest) = 2 * length rest"
  by (induction rest) auto

text \<open>
  Claim C4. A right-recursive chain of N operands joined by N - 1 unions with flags
  d1 .. d(N-1) passes the validation of \<^verbatim>\<open>_make_union\<close> (the flattened list has odd
  length), and the statement built holds exactly the N operands in order, the N - 1
  flags in order, and one keyword per flag: \<^verbatim>\<open>UNION\<close> for a true flag and
  \<^verbatim>\<open>UNION ALL\<close> for a false one.
\<close>

theorem flatten_right_recursive_union_chain:
  assumes "\<not> is_union t" and "\<forall>p \<in> set rest. \<not> is_union (snd p)" and "rest \<noteq> []"
  shows "\<exists>u. make_union ctx (union_chain t rest) = Inr u
           \<and> tables u = map PTable (t # map snd rest)
           \<and> distincts u = map PFlag (map fst rest)
           \<and> length (tables u) = length rest + 1
           \<and> odd (length (flatten_union (union_chain t rest)))
           \<and> union_get_keyword_list u =
               map (\<lambda>p. Some (if fst p then ''UNION'' else ''UNION ALL'')) rest"
proof -
  have fl: "flatten_union (union_chain t rest) = PTable t # interleave rest"
    using assms(1,2) by (rule flatten_union_chain)
  have len: "length (flatten_union (union_chain t rest)) = 2 * length rest + 1"
    by (simp add: fl length_interleave)
  from assms(3) have "length rest \<ge> 1" by (cases rest) auto
  with len have ok: "length (flatten_union (union_chain t rest)) \<ge> 3
      \<and> length (flatten_union (union_chain t rest)) mod 2 \<noteq> 0"
    by presburger
  let ?u = "\<lparr> tables = slice_even (flatten_union (union_chain t rest)),
              set_expr = union_chain t rest, set_context = ctx,
              distincts = slice_odd (flatten_union (union_chain t rest)) \<rparr>"
  have mk: "make_union ctx (union_chain t rest) = Inr ?u"
    using ok by (simp add: make_union_def Let_def)
  have kw: "union_get_keyword_list ?u =
      map (\<lambda>p. Some (if fst p then ''UNION'' else ''UNION ALL'')) rest"
    by (simp add: union_get_keyword_list_def fl slice_odd_interleave keyword_def comp_def)
  have odd: "odd (length (flatten_union (union_chain t rest)))"
    using len by simp
  show ?thesis
    using mk kw odd by (simp add: fl slice_even_interleave slice_odd_interleave)
qed

theorem flatten_right_recursive_union_chain_witness:
  "\<exists>u. make_union () (union_chain (tbl ''a'') [(True, tbl ''b''), (False, tbl ''c'')]) = Inr u
     \<and> tables u = [PTable (tbl ''a''), PTable (tbl ''b''), PTable (tbl ''c'')]
     \<and> union_get_keyword_list u = [Some ''UNION'', Some ''UNION ALL'']"
  using flatten_right_recursive_union_chain
    [of "tbl ''a''" "[(True, tbl ''b''), (False, tbl ''c'')]" "()"]
  by (auto simp: is_union_def tbl_def)

text \<open>
  Claim C5. The claim asks for the whole nested chain of an intersection (or a
  difference) to be flattened into all of its operands. \<^verbatim>\<open>flatten_intersection\<close> and
  \<^verbatim>\<open>flatten_difference\<close> recurse through \<^verbatim>\<open>flatten_union\<close>, so a nested intersection
  stays one operand: \<^verbatim>\<open>(a INTERSECT b) INTERSECT c\<close> gives two operands and one keyword
  where the claim asks for three operands and two keywords; the same holds for a
  nested difference.
\<close>

theorem nested_intersection_not_flattened:
  "tables (make_intersect ()
      (Expr TableExpr (Intersection (Expr TableExpr (Intersection (tbl ''a'') (tbl ''b'')))
         (tbl ''c''))))
     = [PTable (Expr TableExpr (Intersection (tbl ''a'') (tbl ''b''))), PTable (tbl ''c'')]
   \<and> intersection_get_keyword_list (make_intersect ()
      (Expr TableExpr (Intersection (Expr TableExpr (Intersection (tbl ''a'') (tbl ''b'')))
         (tbl ''c''))))
     = [''INTERSECT'']
   \<and> tables (make_difference ()
      (Expr TableExpr (Difference (Expr TableExpr (Difference (tbl ''a'') (tbl ''b'')))
         (tbl ''c''))))
     = [PTable (Expr TableExpr (Difference (tbl ''a'') (tbl ''b''))), PTable (tbl ''c'')]
   \<and> difference_get_keyword_list (make_difference ()
      (Expr TableExpr (Difference (Expr TableExpr (Difference (tbl ''a'') (tbl ''b'')))
         (tbl ''c''))))
     = [''EXCEPT'']"
  by (simp add: make_intersect_def make_difference_def tbl_def
      intersection_get_keyword_list_def difference_get_keyword_list_def)

end
